theory Spec2Isabelle
  imports Main "HOL-Library.Log_Nat"
begin

section \<open>Python values used by the two scripts\<close>

text \<open>
  Strings are byte lists holding the UTF-8 encoding of the Python \<^verbatim>\<open>str\<close>. The scripts
  only compare strings for equality, concatenate them and print them, and UTF-8 is
  injective, so equality of the byte lists is equality of the Python strings.

  Exceptions are values. \<open>ImportError\<close> and \<open>Exception\<close> stand for instances of
  \<^verbatim>\<open>Exception\<close> subclasses (the payload is \<^verbatim>\<open>str(e)\<close>); \<open>SystemExit\<close> is what
  \<^verbatim>\<open>exit(n)\<close> raises and is not an \<^verbatim>\<open>Exception\<close> subclass, so \<^verbatim>\<open>except Exception\<close>
  lets it through. Asynchronous interrupts are not modelled.
\<close>

datatype py_exn = ImportError string | Exception string | SystemExit int

fun is_Exception :: "py_exn \<Rightarrow> bool" where
  "is_Exception (ImportError _) = True"
| "is_Exception (Exception _) = True"
| "is_Exception (SystemExit _) = False"

fun str_exn :: "py_exn \<Rightarrow> string" where
  "str_exn (ImportError m) = m"
| "str_exn (Exception m) = m"
| "str_exn (SystemExit n) = []"

text \<open>Standard output: one entry per \<^verbatim>\<open>print\<close> call, without the final newline.\<close>

type_synonym stdout = "string list"

definition newline :: char where
  "newline = CHR 0x0A"

subsection \<open>Number formatting\<close>

definition digit_char :: "nat \<Rightarrow> char" where
  "digit_char n = ''0123456789'' ! (n mod 10)"

function str_nat :: "nat \<Rightarrow> string" where
  "str_nat n = (if n < 10 then [digit_char n] else str_nat (n div 10) @ [digit_char n])"
  by pat_completeness auto
termination
  by (relation "measure (\<lambda>n. n)") auto

declare str_nat.simps [simp del]

definition str_int :: "int \<Rightarrow> string" where
  "str_int i = (if i < 0 then CHR ''-'' # str_nat (nat (- i)) else str_nat (nat i))"

definition rjust :: "nat \<Rightarrow> char \<Rightarrow> string \<Rightarrow> string" where
  "rjust w c s = replicate (w - length s) c @ s"

text \<open>The format specification \<^verbatim>\<open>{x:5d}\<close>: decimal, right-aligned in five columns.\<close>

definition format_5d :: "int \<Rightarrow> string" where
  "format_5d i = rjust 5 CHR '' '' (str_int i)"

definition round_half_even :: "rat \<Rightarrow> int" where
  "round_half_even q =
     (let f = \<lfloor>q\<rfloor>; d = q - of_int f
      in if d < 1 / 2 then f else if 1 / 2 < d then f + 1 else if even f then f else f + 1)"

text \<open>
  The format specification \<^verbatim>\<open>{x:.Nf}\<close>: the decimal with \<open>N\<close> fraction digits nearest to
  the exact value, ties to even.
\<close>

definition format_f :: "nat \<Rightarrow> rat \<Rightarrow> string" where
  "format_f d q =
     (let s = nat (round_half_even (\<bar>q\<bar> * 10 ^ d))
      in (if q < 0 then ''-'' else []) @ str_nat (s div 10 ^ d) @
         (if d = 0 then [] else CHR ''.'' # rjust d CHR ''0'' (str_nat (s mod 10 ^ d))))"

subsection \<open>Binary floating point\<close>

text \<open>
  A Python \<^verbatim>\<open>float\<close> is the rational it denotes. \<open>float_round\<close> rounds a rational to the
  nearest number with a 53-bit significand, ties to even, as IEEE 754 binary64 does.
  The exponent range is left out: the operands below are list lengths, so the
  quotients lie between \<open>2\<^sup>-\<^sup>6\<^sup>3\<close> and \<open>1\<close> and the products below \<open>128\<close>, far from
  overflow and underflow.
\<close>

definition ilog2 :: "rat \<Rightarrow> int" where
  "ilog2 q =
     (let (a, b) = quotient_of q; d = bitlen a - bitlen b
      in if 2 powi d \<le> q then d else d - 1)"

definition float_round :: "rat \<Rightarrow> rat" where
  "float_round q =
     (if q = 0 then 0
      else let u = 2 powi (ilog2 \<bar>q\<bar> - 52)
           in sgn q * of_int (round_half_even (\<bar>q\<bar> / u)) * u)"

text \<open>\<^verbatim>\<open>a / b\<close> on two \<^verbatim>\<open>int\<close>s (\<open>b\<close> not zero): the correctly rounded quotient.\<close>

definition int_truediv :: "int \<Rightarrow> int \<Rightarrow> rat" where
  "int_truediv a b = float_round (of_int a / of_int b)"

text \<open>\<^verbatim>\<open>x * n\<close> on a \<^verbatim>\<open>float\<close> and a small \<^verbatim>\<open>int\<close>.\<close>

definition float_mul :: "rat \<Rightarrow> int \<Rightarrow> rat" where
  "float_mul x n = float_round (x * of_int n)"

section \<open>The diagnostic script \<^verbatim>\<open>verify_unk_bert.py\<close>\<close>

subsection \<open>The tokenizer handle\<close>

text \<open>
  The tokenizer comes from the \<^verbatim>\<open>transformers\<close> library; the script uses two attributes
  and two methods of it, each of which may raise.
\<close>

record tokenizer =
  unk_token :: string
  unk_token_id :: int
  encode :: "string \<Rightarrow> bool \<Rightarrow> py_exn + int list"
  convert_ids_to_tokens :: "int list \<Rightarrow> py_exn + string list"

text \<open>\<^verbatim>\<open>AutoTokenizer.from_pretrained\<close>, by model identifier.\<close>

type_synonym auto_tokenizer = "string \<Rightarrow> py_exn + tokenizer"

record result =
  model :: string
  language :: string
  token_count :: int
  unk_count :: int
  unk_percentage :: rat

subsection \<open>\<^verbatim>\<open>test_tokenizer\<close>\<close>

definition rule60 :: string where
  "rule60 = replicate 60 CHR ''=''"

definition unk_marker_text :: string where
  "unk_marker_text =
     [CHR 0x20, CHR 0xE2, CHR 0xAC, CHR 0x85, CHR 0xEF, CHR 0xB8, CHR 0x8F, CHR 0x20,
      CHR 0x55, CHR 0x4E, CHR 0x4B]"

definition arrow :: string where
  "arrow = [CHR 0xE2, CHR 0x86, CHR 0x92]"

definition count_unk :: "string \<Rightarrow> string list \<Rightarrow> int" where
  "count_unk unk tokens = sum_list (map (\<lambda>t. 1) (filter (\<lambda>t. t = unk) tokens))"

definition percentage :: "int \<Rightarrow> string list \<Rightarrow> rat" where
  "percentage unk_cnt tokens =
     (if tokens \<noteq> [] then float_mul (int_truediv unk_cnt (int (length tokens))) 100 else 0)"

definition token_line :: "string \<Rightarrow> nat \<times> int \<times> string \<Rightarrow> string" where
  "token_line unk = (\<lambda>(i, token_id, token).
     ''  ['' @ str_nat i @ ''] ID='' @ format_5d token_id @ '' '' @ arrow @ '' '' @
     [CHR 0x27] @ token @ [CHR 0x27] @ (if token = unk then unk_marker_text else []))"

definition test_tokenizer ::
  "auto_tokenizer \<Rightarrow> string \<Rightarrow> string \<Rightarrow> string \<Rightarrow> stdout \<times> (py_exn + result)" where
  "test_tokenizer from_pretrained model_name text lang =
     (let out1 = [newline # rule60, ''Model: '' @ model_name, ''Language: '' @ lang,
                  ''Text: '' @ text, rule60]
      in case from_pretrained model_name of
           Inl e \<Rightarrow> (out1, Inl e)
         | Inr tk \<Rightarrow>
             let out2 = out1 @
                   [newline # ''UNK Token: '' @ [CHR 0x27] @ unk_token tk @ [CHR 0x27] @
                    '' (ID: '' @ str_int (unk_token_id tk) @ '')'']
             in case encode tk text False of
                  Inl e \<Rightarrow> (out2, Inl e)
                | Inr encoded \<Rightarrow>
                    (case convert_ids_to_tokens tk encoded of
                       Inl e \<Rightarrow> (out2, Inl e)
                     | Inr tokens \<Rightarrow>
                         let cnt = count_unk (unk_token tk) tokens;
                             pct = percentage cnt tokens;
                             n = length tokens;
                             out3 = out2 @
                               [newline # ''Results:'',
                                ''  Total tokens: '' @ str_nat n,
                                ''  UNK count: '' @ str_int cnt,
                                ''  UNK percentage: '' @ format_f 2 pct @ ''%'',
                                newline # ''First 20 tokens:''] @
                               map (token_line (unk_token tk))
                                 (enumerate 0 (zip (take 20 encoded) (take 20 tokens))) @
                               (if 20 < n
                                then [''  ... ('' @ str_nat (n - 20) @ '' more tokens)'']
                                else [])
                         in (out3,
                             Inr \<lparr>model = model_name, language = lang, token_count = int n,
                                  unk_count = cnt, unk_percentage = pct\<rparr>)))"

subsection \<open>The test set\<close>

text \<open>The key \<^verbatim>\<open>'text'\<close> is the field \<open>sample_text\<close>.\<close>

record test_case =
  model :: string
  sample_text :: string
  language :: string
  expect_unk :: bool

text \<open>A result after \<^verbatim>\<open>result['expect_unk'] = test_case['expect_unk']\<close>.\<close>

record checked_result = result +
  expect_unk :: bool

text \<open>\<^verbatim>\<open>\u0928\u092e\u0938\u094d\u0924\u0947 \u0926\u0941\u0928\u093f\u092f\u093e\u0964 \u092f\u0939 \u090f\u0915 \u092a\u0930\u0940\u0915\u094d\u0937\u0923 \u0939\u0948\u0964\<close>\<close>

definition hindi_text :: string where
  "hindi_text =
     [CHR 0xE0, CHR 0xA4, CHR 0xA8, CHR 0xE0, CHR 0xA4, CHR 0xAE, CHR 0xE0, CHR 0xA4,
      CHR 0xB8, CHR 0xE0, CHR 0xA5, CHR 0x8D, CHR 0xE0, CHR 0xA4, CHR 0xA4, CHR 0xE0,
      CHR 0xA5, CHR 0x87, CHR 0x20, CHR 0xE0, CHR 0xA4, CHR 0xA6, CHR 0xE0, CHR 0xA5,
      CHR 0x81, CHR 0xE0, CHR 0xA4, CHR 0xA8, CHR 0xE0, CHR 0xA4, CHR 0xBF, CHR 0xE0,
      CHR 0xA4, CHR 0xAF, CHR 0xE0, CHR 0xA4, CHR 0xBE, CHR 0xE0, CHR 0xA5, CHR 0xA4,
      CHR 0x20, CHR 0xE0, CHR 0xA4, CHR 0xAF, CHR 0xE0, CHR 0xA4, CHR 0xB9, CHR 0x20,
      CHR 0xE0, CHR 0xA4, CHR 0x8F, CHR 0xE0, CHR 0xA4, CHR 0x95, CHR 0x20, CHR 0xE0,
      CHR 0xA4, CHR 0xAA, CHR 0xE0, CHR 0xA4, CHR 0xB0, CHR 0xE0, CHR 0xA5, CHR 0x80,
      CHR 0xE0, CHR 0xA4, CHR 0x95, CHR 0xE0, CHR 0xA5, CHR 0x8D, CHR 0xE0, CHR 0xA4,
      CHR 0xB7, CHR 0xE0, CHR 0xA4, CHR 0xA3, CHR 0x20, CHR 0xE0, CHR 0xA4, CHR 0xB9,
      CHR 0xE0, CHR 0xA5, CHR 0x88, CHR 0xE0, CHR 0xA5, CHR 0xA4]"

text \<open>\<^verbatim>\<open>\u0cb9\u0cb2\u0ccb \u0c9c\u0c97\u0ca4\u0ccd\u0ca4\u0cc1\u0964 \u0c87\u0ca6\u0cc1 \u0c92\u0c82\u0ca6\u0cc1 \u0caa\u0cb0\u0cc0\u0c95\u0ccd\u0cb7\u0cc6.\<close>\<close>

definition kannada_text :: string where
  "kannada_text =
     [CHR 0xE0, CHR 0xB2, CHR 0xB9, CHR 0xE0, CHR 0xB2, CHR 0xB2, CHR 0xE0, CHR 0xB3,
      CHR 0x8B, CHR 0x20, CHR 0xE0, CHR 0xB2, CHR 0x9C, CHR 0xE0, CHR 0xB2, CHR 0x97,
      CHR 0xE0, CHR 0xB2, CHR 0xA4, CHR 0xE0, CHR 0xB3, CHR 0x8D, CHR 0xE0, CHR 0xB2,
      CHR 0xA4, CHR 0xE0, CHR 0xB3, CHR 0x81, CHR 0xE0, CHR 0xA5, CHR 0xA4, CHR 0x20,
      CHR 0xE0, CHR 0xB2, CHR 0x87, CHR 0xE0, CHR 0xB2, CHR 0xA6, CHR 0xE0, CHR 0xB3,
      CHR 0x81, CHR 0x20, CHR 0xE0, CHR 0xB2, CHR 0x92, CHR 0xE0, CHR 0xB2, CHR 0x82,
      CHR 0xE0, CHR 0xB2, CHR 0xA6, CHR 0xE0, CHR 0xB3, CHR 0x81, CHR 0x20, CHR 0xE0,
      CHR 0xB2, CHR 0xAA, CHR 0xE0, CHR 0xB2, CHR 0xB0, CHR 0xE0, CHR 0xB3, CHR 0x80,
      CHR 0xE0, CHR 0xB2, CHR 0x95, CHR 0xE0, CHR 0xB3, CHR 0x8D, CHR 0xE0, CHR 0xB2,
      CHR 0xB7, CHR 0xE0, CHR 0xB3, CHR 0x86, CHR 0x2E]"

text \<open>\<^verbatim>\<open>\u0bb5\u0ba3\u0b95\u0bcd\u0b95\u0bae\u0bcd \u0b89\u0bb2\u0b95\u0bae\u0bcd. \u0b87\u0ba4\u0bc1 \u0b92\u0bb0\u0bc1 \u0b9a\u0bcb\u0ba4\u0ba9\u0bc8.\<close>\<close>

definition tamil_text :: string where
  "tamil_text =
     [CHR 0xE0, CHR 0xAE, CHR 0xB5, CHR 0xE0, CHR 0xAE, CHR 0xA3, CHR 0xE0, CHR 0xAE,
      CHR 0x95, CHR 0xE0, CHR 0xAF, CHR 0x8D, CHR 0xE0, CHR 0xAE, CHR 0x95, CHR 0xE0,
      CHR 0xAE, CHR 0xAE, CHR 0xE0, CHR 0xAF, CHR 0x8D, CHR 0x20, CHR 0xE0, CHR 0xAE,
      CHR 0x89, CHR 0xE0, CHR 0xAE, CHR 0xB2, CHR 0xE0, CHR 0xAE, CHR 0x95, CHR 0xE0,
      CHR 0xAE, CHR 0xAE, CHR 0xE0, CHR 0xAF, CHR 0x8D, CHR 0x2E, CHR 0x20, CHR 0xE0,
      CHR 0xAE, CHR 0x87, CHR 0xE0, CHR 0xAE, CHR 0xA4, CHR 0xE0, CHR 0xAF, CHR 0x81,
      CHR 0x20, CHR 0xE0, CHR 0xAE, CHR 0x92, CHR 0xE0, CHR 0xAE, CHR 0xB0, CHR 0xE0,
      CHR 0xAF, CHR 0x81, CHR 0x20, CHR 0xE0, CHR 0xAE, CHR 0x9A, CHR 0xE0, CHR 0xAF,
      CHR 0x8B, CHR 0xE0, CHR 0xAE, CHR 0xA4, CHR 0xE0, CHR 0xAE, CHR 0xA9, CHR 0xE0,
      CHR 0xAF, CHR 0x88, CHR 0x2E]"

definition test_cases :: "test_case list" where
  "test_cases =
     [\<lparr>test_case.model = ''bert-base-uncased'', sample_text = hindi_text,
       test_case.language = ''Hindi (Devanagari)'', test_case.expect_unk = True\<rparr>,
      \<lparr>test_case.model = ''bert-base-uncased'', sample_text = kannada_text,
       test_case.language = ''Kannada'', test_case.expect_unk = True\<rparr>,
      \<lparr>test_case.model = ''bert-base-uncased'', sample_text = tamil_text,
       test_case.language = ''Tamil'', test_case.expect_unk = True\<rparr>,
      \<lparr>test_case.model = ''bert-base-uncased'', sample_text = ''Hello world. This is a test.'',
       test_case.language = ''English'', test_case.expect_unk = False\<rparr>,
      \<lparr>test_case.model = ''bert-base-multilingual-uncased'', sample_text = hindi_text,
       test_case.language = ''Hindi (Devanagari)'', test_case.expect_unk = False\<rparr>]"

subsection \<open>\<^verbatim>\<open>main\<close>\<close>

definition magnifier :: string where
  "magnifier = [CHR 0xF0, CHR 0x9F, CHR 0x94, CHR 0x8D]"

definition cross_mark :: string where
  "cross_mark = [CHR 0xE2, CHR 0x9D, CHR 0x8C]"

definition bar_chart :: string where
  "bar_chart = [CHR 0xF0, CHR 0x9F, CHR 0x93, CHR 0x8A]"

definition check_mark :: string where
  "check_mark = [CHR 0xE2, CHR 0x9C, CHR 0x85]"

definition error_line :: "py_exn \<Rightarrow> string" where
  "error_line e = newline # cross_mark @ '' ERROR: '' @ str_exn e"

text \<open>
  The loop over the test cases, started with the output so far and the results so far.
  A case that raises an \<^verbatim>\<open>Exception\<close> prints the error line and the loop goes on;
  anything else that is raised leaves the loop.
\<close>

fun run_cases ::
  "auto_tokenizer \<Rightarrow> test_case list \<Rightarrow> stdout \<Rightarrow> checked_result list \<Rightarrow>
   stdout \<times> (py_exn + checked_result list)" where
  "run_cases from_pretrained [] out results = (out, Inr results)"
| "run_cases from_pretrained (tc # tcs) out results =
     (case test_tokenizer from_pretrained (test_case.model tc) (sample_text tc) (test_case.language tc) of
        (printed, Inr r) \<Rightarrow>
          run_cases from_pretrained tcs (out @ printed)
            (results @ [result.extend r (checked_result.fields (test_case.expect_unk tc))])
      | (printed, Inl e) \<Rightarrow>
          if is_Exception e
          then run_cases from_pretrained tcs (out @ printed @ [error_line e]) results
          else (out @ printed, Inl e))"

definition has_unk :: "checked_result \<Rightarrow> bool" where
  "has_unk r = (0 < unk_count r)"

definition status :: "checked_result \<Rightarrow> string" where
  "status r =
     (if has_unk r = checked_result.expect_unk r then check_mark @ '' PASS''
      else cross_mark @ '' FAIL'')"

definition summary_entry :: "checked_result \<Rightarrow> string list" where
  "summary_entry r =
     (let expect = (if checked_result.expect_unk r then ''Should have UNK''
                    else ''Should NOT have UNK'')
      in [status r @ '' '' @ result.model r @ '' on '' @ result.language r,
          ''     Tokens: '' @ str_int (token_count r) @ '', UNK: '' @ str_int (unk_count r) @
            '' ('' @ format_f 1 (unk_percentage r) @ ''%)'',
          ''     Expected: '' @ expect @ '', Got: '' @
            (if has_unk r then ''UNK found'' else ''No UNK''),
          []])"

definition summary_lines :: "checked_result list \<Rightarrow> string list" where
  "summary_lines results = concat (map summary_entry results)"

definition summary_header :: "string list" where
  "summary_header =
     [newline # newline # rule60, bar_chart @ '' SUMMARY'', rule60 @ [newline]]"

definition closing_banner :: "string list" where
  "closing_banner =
     [rule60, check_mark @ '' Verification complete!'',
      newline # ''Compare these results with your JavaScript implementation.'',
      ''BERT-base-uncased should show high UNK% on Hindi/Kannada/Tamil.'']"

definition main :: "auto_tokenizer \<Rightarrow> stdout \<times> (py_exn + unit)" where
  "main from_pretrained =
     (case run_cases from_pretrained test_cases
             [magnifier @ '' UNK Token Detection Verification Script'', rule60] [] of
        (out, Inl e) \<Rightarrow> (out, Inl e)
      | (out, Inr results) \<Rightarrow>
          (out @ summary_header @ summary_lines results @ closing_banner, Inr ()))"

subsection \<open>The script as a process\<close>

text \<open>
  The exit status of the interpreter: 0 when the module body ends, the code of an
  uncaught \<^verbatim>\<open>SystemExit\<close>, 1 for any other uncaught exception.
\<close>

fun exit_status :: "py_exn + unit \<Rightarrow> int" where
  "exit_status (Inr _) = 0"
| "exit_status (Inl (SystemExit n)) = n"
| "exit_status (Inl _) = 1"

text \<open>
  The module body of \<^verbatim>\<open>verify_unk_bert.py\<close>, run as \<^verbatim>\<open>__main__\<close>. The argument is the
  outcome of \<^verbatim>\<open>from transformers import AutoTokenizer\<close>.
\<close>

definition verify_unk_bert :: "py_exn + auto_tokenizer \<Rightarrow> stdout \<times> (py_exn + unit)" where
  "verify_unk_bert imported =
     (case imported of
        Inl (ImportError m) \<Rightarrow>
          ([''ERROR: transformers not installed'', ''Install with: pip install transformers''],
           Inl (SystemExit 1))
      | Inl e \<Rightarrow> ([], Inl e)
      | Inr from_pretrained \<Rightarrow> main from_pretrained)"

section \<open>The conversion script \<^verbatim>\<open>create_token.py\<close>\<close>

text \<open>
  What the script uses of the \<^verbatim>\<open>transformers\<close> library. Library objects have one type
  \<open>'obj\<close>; every call runs in a world \<open>'w\<close> (the model hub, its cache and the local file
  system), may change it and may raise.
\<close>

record ('obj, 'w) transformers =
  BertTokenizer_from_pretrained :: "string \<Rightarrow> 'w \<Rightarrow> (py_exn + 'obj) \<times> 'w"
  BertTokenizerFast_from_pretrained :: "string \<Rightarrow> 'w \<Rightarrow> (py_exn + 'obj) \<times> 'w"
  save_pretrained :: "'obj \<Rightarrow> string \<Rightarrow> 'w \<Rightarrow> (py_exn + unit) \<times> 'w"
  BertModel_from_pretrained :: "string \<Rightarrow> 'w \<Rightarrow> (py_exn + 'obj) \<times> 'w"
  call_tokenizer :: "'obj \<Rightarrow> string \<Rightarrow> 'w \<Rightarrow> (py_exn + 'obj) \<times> 'w"
  call_model :: "'obj \<Rightarrow> 'obj \<Rightarrow> 'w \<Rightarrow> (py_exn + 'obj) \<times> 'w"
  last_hidden_state :: "'obj \<Rightarrow> 'obj"
  str :: "'obj \<Rightarrow> string"

definition model_id :: string where
  "model_id = ''google/muril-base-cased''"

definition fast_dir :: string where
  "fast_dir = ''./muril-fast-tokenizer''"

text \<open>\<^verbatim>\<open>\u092f\u0939 \u090f\u0915 \u092a\u0930\u0940\u0915\u094d\u0937\u0923 \u0935\u093e\u0915\u094d\u092f \u0939\u0948\u0964\<close>\<close>

definition sample_sentence :: string where
  "sample_sentence =
     [CHR 0xE0, CHR 0xA4, CHR 0xAF, CHR 0xE0, CHR 0xA4, CHR 0xB9, CHR 0x20, CHR 0xE0,
      CHR 0xA4, CHR 0x8F, CHR 0xE0, CHR 0xA4, CHR 0x95, CHR 0x20, CHR 0xE0, CHR 0xA4,
      CHR 0xAA, CHR 0xE0, CHR 0xA4, CHR 0xB0, CHR 0xE0, CHR 0xA5, CHR 0x80, CHR 0xE0,
      CHR 0xA4, CHR 0x95, CHR 0xE0, CHR 0xA5, CHR 0x8D, CHR 0xE0, CHR 0xA4, CHR 0xB7,
      CHR 0xE0, CHR 0xA4, CHR 0xA3, CHR 0x20, CHR 0xE0, CHR 0xA4, CHR 0xB5, CHR 0xE0,
      CHR 0xA4, CHR 0xBE, CHR 0xE0, CHR 0xA4, CHR 0x95, CHR 0xE0, CHR 0xA5, CHR 0x8D,
      CHR 0xE0, CHR 0xA4, CHR 0xAF, CHR 0x20, CHR 0xE0, CHR 0xA4, CHR 0xB9, CHR 0xE0,
      CHR 0xA5, CHR 0x88, CHR 0xE0, CHR 0xA5, CHR 0xA4]"

text \<open>
  The module body after the import, statement by statement. The result is what was
  printed, how the body ended, and the world it left.
\<close>

definition create_token ::
  "('obj, 'w) transformers \<Rightarrow> 'w \<Rightarrow> stdout \<times> (py_exn + unit) \<times> 'w" where
  "create_token lib w0 =
     (case BertTokenizer_from_pretrained lib model_id w0 of
        (Inl e, w1) \<Rightarrow> ([], Inl e, w1)
      | (Inr slow_tokenizer, w1) \<Rightarrow>
     (case BertTokenizerFast_from_pretrained lib model_id w1 of
        (Inl e, w2) \<Rightarrow> ([], Inl e, w2)
      | (Inr fast_tokenizer, w2) \<Rightarrow>
     (case save_pretrained lib fast_tokenizer fast_dir w2 of
        (Inl e, w3) \<Rightarrow> ([], Inl e, w3)
      | (Inr _, w3) \<Rightarrow>
     (case BertTokenizerFast_from_pretrained lib fast_dir w3 of
        (Inl e, w4) \<Rightarrow> ([], Inl e, w4)
      | (Inr tokenizer, w4) \<Rightarrow>
     (case BertModel_from_pretrained lib model_id w4 of
        (Inl e, w5) \<Rightarrow> ([], Inl e, w5)
      | (Inr bert_model, w5) \<Rightarrow>
     (case call_tokenizer lib tokenizer sample_sentence w5 of
        (Inl e, w6) \<Rightarrow> ([], Inl e, w6)
      | (Inr inputs, w6) \<Rightarrow>
     (case call_model lib bert_model inputs w6 of
        (Inl e, w7) \<Rightarrow> ([], Inl e, w7)
      | (Inr outputs, w7) \<Rightarrow>
          ([''Tokenized input: '' @ str lib inputs,
            ''Model output (last hidden state): '' @ str lib (last_hidden_state lib outputs)],
           Inr (), w7))))))))"

section \<open>A small tokenizer for concrete runs\<close>

text \<open>
  A tokenizer that knows the word \<^verbatim>\<open>hello\<close> only: every text is encoded as the three
  identifiers 100, 7592, 100, and identifier 100 is the unknown token.
\<close>

definition demo_tokenizer :: tokenizer where
  "demo_tokenizer =
     \<lparr>unk_token = ''[UNK]'', unk_token_id = 100,
      encode = (\<lambda>t special. Inr [100, 7592, 100]),
      convert_ids_to_tokens = (\<lambda>ids. Inr (map (\<lambda>i. if i = 100 then ''[UNK]'' else ''hello'') ids))\<rparr>"

definition demo_hub :: auto_tokenizer where
  "demo_hub m = (if m = ''bert-base-uncased'' then Inr demo_tokenizer else Inl (Exception ''no such model''))"

definition demo_tokens :: "string list" where
  "demo_tokens = [''[UNK]'', ''hello'', ''[UNK]'']"





text \<open>
  A library for concrete runs of the conversion script: objects are their names, the
  world is the list of the calls made so far. In \<open>full_disk_lib\<close> saving fails.
\<close>

definition demo_lib :: "(string, string list) transformers" where
  "demo_lib =
     \<lparr>BertTokenizer_from_pretrained = (\<lambda>name w. (Inr ''slow'', w @ [''BertTokenizer '' @ name])),
      BertTokenizerFast_from_pretrained =
        (\<lambda>name w. (Inr (''fast '' @ name), w @ [''BertTokenizerFast '' @ name])),
      save_pretrained = (\<lambda>obj dir w. (Inr (), w @ [''save '' @ obj @ '' to '' @ dir])),
      BertModel_from_pretrained = (\<lambda>name w. (Inr ''model'', w @ [''BertModel '' @ name])),
      call_tokenizer = (\<lambda>obj t w. (Inr ''inputs'', w @ [''encode with '' @ obj])),
      call_model = (\<lambda>obj inputs w. (Inr ''outputs'', w @ [''forward '' @ obj @ '' '' @ inputs])),
      last_hidden_state = (\<lambda>obj. obj @ ''.last_hidden_state''),
      str = (\<lambda>obj. obj)\<rparr>"

definition full_disk_lib :: "(string, string list) transformers" where
  "full_disk_lib =
     demo_lib\<lparr>save_pretrained := (\<lambda>obj dir w. (Inl (Exception ''disk full''), w @ [''save'']))\<rparr>"

section \<open>Rounding\<close>

lemma round_half_even_err: "\<bar>of_int (round_half_even x) - x\<bar> \<le> 1 / 2"
proof -
  define f where "f = \<lfloor>x\<rfloor>"
  define d where "d = x - of_int f"
  have d: "0 \<le> d" "d < 1" unfolding d_def f_def by linarith+
  have x: "x = of_int f + d" by (simp add: d_def)
  have r: "round_half_even x = (if d < 1 / 2 then f else if 1 / 2 < d then f + 1 else if even f then f else f + 1)"
    by (simp add: round_half_even_def Let_def f_def d_def)
  consider "d < 1 / 2" | "1 / 2 < d" | "d = 1 / 2" by linarith
  then show ?thesis
  proof cases
    case 1
    then have "round_half_even x = f" by (simp add: r)
    then have "of_int (round_half_even x) - x = - d" by (simp add: d_def)
    then show ?thesis using d 1 by simp
  next
    case 2
    then have "round_half_even x = f + 1" by (simp add: r)
    then have "of_int (round_half_even x) - x = 1 - d" by (simp add: d_def)
    then show ?thesis using d 2 by simp
  next
    case 3
    then have "round_half_even x = f \<or> round_half_even x = f + 1" by (simp add: r)
    then have "of_int (round_half_even x) - x = - d \<or> of_int (round_half_even x) - x = 1 - d"
      by (auto simp add: d_def)
    then show ?thesis using 3 by auto
  qed
qed

lemma quotient_of_pos:
  assumes "0 < q" "quotient_of q = (a, b)"
  shows "0 < a" "0 < b" "q = of_int a / of_int b"
  using assms quotient_of_denom_pos[OF assms(2)] quotient_of_div[OF assms(2)]
  by (auto simp: zero_less_divide_iff)

lemma bitlen_rat_bounds:
  assumes "0 < (a::int)"
  shows "(2::rat) powi (bitlen a - 1) \<le> of_int a" "of_int a < (2::rat) powi (bitlen a)"
proof -
  from bitlen_bounds[OF assms] have l: "2 ^ nat (bitlen a - 1) \<le> a" and u: "a < 2 ^ nat (bitlen a)" by auto
  have ge: "bitlen a \<ge> 1" using assms by (auto simp: bitlen_alt_def)
  have "(of_int (2 ^ nat (bitlen a - 1)) :: rat) \<le> of_int a" using l by (simp only: of_int_le_iff)
  then show "(2::rat) powi (bitlen a - 1) \<le> of_int a" using ge by (simp add: power_int_def)
  have "(of_int a :: rat) < of_int (2 ^ nat (bitlen a))" using u by (simp only: of_int_less_iff)
  then show "of_int a < (2::rat) powi (bitlen a)" using ge by (simp add: power_int_def)
qed

lemma ilog2_bounds:
  assumes "0 < q"
  shows "2 powi (ilog2 q) \<le> q" "q < 2 powi (ilog2 q + 1)"
proof -
  obtain a b where ab: "quotient_of q = (a, b)" by (cases "quotient_of q")
  from quotient_of_pos[OF assms ab] have a: "0 < a" and b: "0 < b" and q: "q = of_int a / of_int b" by auto
  let ?d = "bitlen a - bitlen b"
  note A = bitlen_rat_bounds[OF a] and B = bitlen_rat_bounds[OF b]
  have bpos: "(0::rat) < of_int b" using b by simp
  have lo: "2 powi (?d - 1) \<le> q"
  proof -
    have "(2::rat) powi (?d - 1) = 2 powi (bitlen a - 1) / 2 powi (bitlen b)"
      by (simp add: power_int_diff)
    also have "\<dots> \<le> of_int a / 2 powi (bitlen b)"
      using A(1) by (simp add: divide_right_mono)
    also have "\<dots> \<le> of_int a / of_int b"
      using B(2) a bpos by (simp add: frac_le)
    finally show ?thesis using q by simp
  qed
  have hi: "q < 2 powi (?d + 1)"
  proof -
    have p: "(0::rat) < 2 powi (bitlen b - 1)" by simp
    have "q = of_int a / of_int b" by (rule q)
    also have "\<dots> \<le> of_int a / 2 powi (bitlen b - 1)"
      using B(1) a p by (simp add: frac_le)
    also have "\<dots> < 2 powi (bitlen a) / 2 powi (bitlen b - 1)"
      using A(2) p by (simp add: divide_strict_right_mono)
    also have "\<dots> = 2 powi (?d + 1)"
      by (simp add: power_int_diff power_int_add)
    finally show ?thesis .
  qed
  have il: "ilog2 q = (if 2 powi ?d \<le> q then ?d else ?d - 1)"
    by (simp add: ilog2_def ab Let_def)
  show "2 powi (ilog2 q) \<le> q" using lo by (simp add: il)
  show "q < 2 powi (ilog2 q + 1)" using hi by (auto simp add: il not_le)
qed

lemma float_round_pos_eq:
  assumes "0 < q"
  shows "float_round q = of_int (round_half_even (q / 2 powi (ilog2 q - 52))) * 2 powi (ilog2 q - 52)"
  using assms by (simp add: float_round_def Let_def)

lemma float_round_err:
  assumes "0 < q"
  shows "\<bar>float_round q - q\<bar> \<le> q / 2 ^ 53"
proof -
  define u :: rat where "u = 2 powi (ilog2 q - 52)"
  have u: "0 < u" by (simp add: u_def)
  have fr: "float_round q = of_int (round_half_even (q / u)) * u"
    using float_round_pos_eq[OF assms] by (simp add: u_def)
  have "float_round q - q = (of_int (round_half_even (q / u)) - q / u) * u"
    using u by (simp add: fr left_diff_distrib)
  then have "\<bar>float_round q - q\<bar> = \<bar>of_int (round_half_even (q / u)) - q / u\<bar> * u"
    using u by (simp add: abs_mult)
  also have "\<dots> \<le> (1 / 2) * u"
    using round_half_even_err[of "q / u"] u by (intro mult_right_mono) auto
  also have "\<dots> = 2 powi (ilog2 q) / 2 ^ 53"
    by (simp add: u_def power_int_diff)
  also have "\<dots> \<le> q / 2 ^ 53"
    using ilog2_bounds(1)[OF assms] by (simp add: divide_right_mono)
  finally show ?thesis .
qed

lemma float_round_pos:
  assumes "0 < q"
  shows "0 < float_round q"
proof -
  have "\<bar>float_round q - q\<bar> \<le> q / 2 ^ 53" by (rule float_round_err[OF assms])
  moreover have "q / 2 ^ 53 < q" using assms by (simp add: divide_less_eq)
  ultimately show ?thesis by linarith
qed

lemma float_round_zero: "float_round 0 = 0"
  by (simp add: float_round_def)

lemma percentage_err:
  assumes "0 < c" "0 < n"
  shows "\<bar>float_mul (int_truediv c n) 100 - 100 * of_int c / of_int n\<bar> \<le> (100 * of_int c / of_int n) / 2 ^ 51"
proof -
  define e :: rat where "e = of_int c / of_int n"
  define x where "x = float_round e"
  define y where "y = float_round (x * 100)"
  have e: "0 < e" using assms by (simp add: e_def)
  have x: "0 < x" unfolding x_def by (rule float_round_pos[OF e])
  have ex: "\<bar>x - e\<bar> \<le> e / 2 ^ 53" unfolding x_def by (rule float_round_err[OF e])
  have x100: "0 < x * 100" using x by simp
  have ey: "\<bar>y - x * 100\<bar> \<le> (x * 100) / 2 ^ 53" unfolding y_def by (rule float_round_err[OF x100])
  have xle: "x \<le> e + e / 2 ^ 53" using ex by linarith
  have "y - 100 * e = (y - x * 100) + 100 * (x - e)" by (simp add: algebra_simps)
  then have "\<bar>y - 100 * e\<bar> \<le> \<bar>y - x * 100\<bar> + \<bar>100 * (x - e)\<bar>"
    by (simp only: abs_triangle_ineq)
  also have "\<dots> = \<bar>y - x * 100\<bar> + 100 * \<bar>x - e\<bar>" by (simp only: abs_mult abs_numeral)
  also have "\<dots> \<le> (x * 100) / 2 ^ 53 + 100 * (e / 2 ^ 53)"
    by (intro add_mono mult_left_mono ey ex) simp
  also have "\<dots> \<le> ((e + e / 2 ^ 53) * 100) / 2 ^ 53 + 100 * (e / 2 ^ 53)"
    using xle by (simp add: divide_right_mono)
  also have "\<dots> \<le> (100 * e) / 2 ^ 51" using e by (simp add: field_simps)
  finally have "\<bar>y - 100 * e\<bar> \<le> (100 * e) / 2 ^ 51" .
  then show ?thesis by (simp add: y_def x_def e_def float_mul_def int_truediv_def)
qed

section \<open>Properties of \<^verbatim>\<open>test_tokenizer\<close>\<close>

lemma count_unk_length: "count_unk unk tokens = int (length (filter (\<lambda>t. t = unk) tokens))"
  unfolding count_unk_def by (induction tokens) auto

lemma count_unk_card:
  "count_unk unk tokens = int (card {i. i < length tokens \<and> tokens ! i = unk})"
  by (simp add: count_unk_length length_filter_conv_card)

lemma count_unk_nonneg: "0 \<le> count_unk unk tokens"
  by (simp add: count_unk_length)

lemma test_tokenizer_result:
  assumes "snd (test_tokenizer from_pretrained m t l) = Inr r"
  shows "\<exists>tk encoded tokens.
           from_pretrained m = Inr tk \<and> encode tk t False = Inr encoded \<and>
           convert_ids_to_tokens tk encoded = Inr tokens \<and>
           r = \<lparr>result.model = m, language = l, token_count = int (length tokens),
                unk_count = count_unk (unk_token tk) tokens,
                unk_percentage = percentage (count_unk (unk_token tk) tokens) tokens\<rparr>"
  using assms unfolding test_tokenizer_def
  by (auto simp: Let_def split: sum.splits)

lemma test_tokenizer_success:
  assumes "from_pretrained m = Inr tk" "encode tk t False = Inr encoded"
    "convert_ids_to_tokens tk encoded = Inr tokens"
  shows "snd (test_tokenizer from_pretrained m t l) =
           Inr \<lparr>result.model = m, language = l, token_count = int (length tokens),
                unk_count = count_unk (unk_token tk) tokens,
                unk_percentage = percentage (count_unk (unk_token tk) tokens) tokens\<rparr>"
  using assms unfolding test_tokenizer_def by (simp add: Let_def)

lemma demo_run:
  "demo_hub ''bert-base-uncased'' = Inr demo_tokenizer"
  "encode demo_tokenizer t False = Inr [100, 7592, 100]"
  "convert_ids_to_tokens demo_tokenizer [100, 7592, 100] = Inr demo_tokens"
  by (simp_all add: demo_hub_def demo_tokenizer_def demo_tokens_def)

text \<open>
  Claim C4. When the tokenizer is loaded, the text encoded and the identifiers
  converted, \<^verbatim>\<open>test_tokenizer\<close> returns a record whose unknown-token count is the number
  of positions of the converted token sequence that hold the tokenizer's unknown-token
  string.
\<close>

theorem unk_count_is_position_count:
  assumes "from_pretrained m = Inr tk"
    and "encode tk t False = Inr encoded"
    and "convert_ids_to_tokens tk encoded = Inr tokens"
  shows "\<exists>r. snd (test_tokenizer from_pretrained m t l) = Inr r \<and>
             unk_count r = int (card {i. i < length tokens \<and> tokens ! i = unk_token tk})"
  using assms test_tokenizer_success[of from_pretrained m tk t encoded tokens l]
  by (simp add: count_unk_card)

theorem unk_count_is_position_count_witness:
  "demo_hub ''bert-base-uncased'' = Inr demo_tokenizer \<and>
   encode demo_tokenizer ''Hello'' False = Inr [100, 7592, 100] \<and>
   convert_ids_to_tokens demo_tokenizer [100, 7592, 100] = Inr demo_tokens \<and>
   (\<exists>r. snd (test_tokenizer demo_hub ''bert-base-uncased'' ''Hello'' ''English'') = Inr r \<and>
        unk_count r =
          int (card {i. i < length demo_tokens \<and> demo_tokens ! i = unk_token demo_tokenizer}))"
  using unk_count_is_position_count[of demo_hub "''bert-base-uncased''" demo_tokenizer "''Hello''"
      "[100, 7592, 100]" demo_tokens "''English''"] demo_run
  by simp

lemma percentage_zero_count: "percentage 0 tokens = 0"
  by (simp add: percentage_def float_mul_def int_truediv_def float_round_zero)

lemma percentage_pos_iff:
  assumes "0 \<le> c"
  shows "0 < percentage c tokens \<longleftrightarrow> 0 < c \<and> tokens \<noteq> []"
proof (cases "0 < c \<and> tokens \<noteq> []")
  case True
  then have "(0::rat) < of_int c / of_int (int (length tokens))" by simp
  then have "0 < int_truediv c (int (length tokens))"
    unfolding int_truediv_def by (rule float_round_pos)
  then have "0 < int_truediv c (int (length tokens)) * of_int 100" by simp
  then have "0 < float_mul (int_truediv c (int (length tokens))) 100"
    unfolding float_mul_def by (rule float_round_pos)
  with True show ?thesis by (simp add: percentage_def)
next
  case False
  with assms have "c = 0 \<or> tokens = []" by auto
  then have "percentage c tokens = 0"
    by (auto simp: percentage_zero_count) (simp add: percentage_def)
  with False show ?thesis by simp
qed

lemma count_unk_pos_nonempty: "0 < count_unk unk tokens \<Longrightarrow> tokens \<noteq> []"
  by (auto simp: count_unk_def)

text \<open>
  Claim C1. The percentage in the returned record is \<open>0\<close> when there are no tokens;
  otherwise it is the number of tokens equal to the unknown-token string, divided by
  the number of tokens, times \<open>100\<close>, where the division and the multiplication are
  Python's on \<^verbatim>\<open>float\<close>. The value so computed lies within one part in \<open>2\<^sup>5\<^sup>1\<close> of the
  exact quotient times \<open>100\<close>.
\<close>

theorem unk_percentage_formula:
  assumes "from_pretrained m = Inr tk"
    and "encode tk t False = Inr encoded"
    and "convert_ids_to_tokens tk encoded = Inr tokens"
  shows "\<exists>r. snd (test_tokenizer from_pretrained m t l) = Inr r \<and>
             unk_percentage r =
               (if length tokens = 0 then 0
                else float_mul
                       (int_truediv (int (length (filter (\<lambda>x. x = unk_token tk) tokens)))
                          (int (length tokens))) 100) \<and>
             (length tokens \<noteq> 0 \<longrightarrow>
                \<bar>unk_percentage r -
                   of_nat (length (filter (\<lambda>x. x = unk_token tk) tokens)) /
                     of_nat (length tokens) * 100\<bar>
                \<le> of_nat (length (filter (\<lambda>x. x = unk_token tk) tokens)) /
                     of_nat (length tokens) * 100 / 2 ^ 51)"
proof -
  define c where "c = length (filter (\<lambda>x. x = unk_token tk) tokens)"
  define n where "n = length tokens"
  define p where "p = percentage (int c) tokens"
  have run: "snd (test_tokenizer from_pretrained m t l) =
      Inr \<lparr>result.model = m, language = l, token_count = int n, unk_count = int c,
           unk_percentage = p\<rparr>"
    using assms test_tokenizer_success[of from_pretrained m tk t encoded tokens l]
    by (simp add: count_unk_length c_def n_def p_def)
  have formula: "p = (if n = 0 then 0 else float_mul (int_truediv (int c) (int n)) 100)"
    by (simp add: p_def percentage_def n_def)
  have near: "\<bar>p - of_nat c / of_nat n * 100\<bar> \<le> of_nat c / of_nat n * 100 / 2 ^ 51"
    if "n \<noteq> 0"
  proof (cases "c = 0")
    case True
    then show ?thesis by (simp add: p_def percentage_zero_count)
  next
    case False
    with that have "0 < int c" "0 < int n" by simp_all
    from percentage_err[OF this] that show ?thesis
      by (simp add: formula mult.commute[of 100])
  qed
  from run formula near show ?thesis
    unfolding c_def n_def by simp
qed

theorem unk_percentage_formula_witness:
  "demo_hub ''bert-base-uncased'' = Inr demo_tokenizer \<and>
   encode demo_tokenizer ''Hello'' False = Inr [100, 7592, 100] \<and>
   convert_ids_to_tokens demo_tokenizer [100, 7592, 100] = Inr demo_tokens \<and>
   length demo_tokens \<noteq> 0 \<and>
   (\<exists>r. snd (test_tokenizer demo_hub ''bert-base-uncased'' ''Hello'' ''English'') = Inr r \<and>
        unk_percentage r = float_mul (int_truediv 2 3) 100 \<and>
        \<bar>unk_percentage r - 2 / 3 * 100\<bar> \<le> 2 / 3 * 100 / 2 ^ 51)"
proof -
  have n: "length demo_tokens = 3"
    and c: "length (filter (\<lambda>x. x = unk_token demo_tokenizer) demo_tokens) = 2"
    by (simp_all add: demo_tokens_def demo_tokenizer_def)
  from unk_percentage_formula[of demo_hub "''bert-base-uncased''" demo_tokenizer "''Hello''"
      "[100, 7592, 100]" demo_tokens "''English''"] demo_run
  show ?thesis by (simp add: n c)
qed

text \<open>
  Claim C10. In every record that \<^verbatim>\<open>test_tokenizer\<close> returns, the percentage is
  positive exactly when the count is; so the test \<^verbatim>\<open>unk_count > 0\<close> of the summary
  can be read off the percentage, also when there are no tokens and both are \<open>0\<close>.
\<close>

theorem unk_percentage_pos_iff_unk_count_pos:
  assumes "snd (test_tokenizer from_pretrained m t l) = Inr r"
  shows "(0 < unk_percentage r \<longleftrightarrow> 0 < unk_count r) \<and>
         has_unk (result.extend r (checked_result.fields b)) = (0 < unk_percentage r) \<and>
         (token_count r = 0 \<longrightarrow> unk_percentage r = 0 \<and> unk_count r = 0)"
proof -
  from test_tokenizer_result[OF assms] obtain tk :: tokenizer and tokens where
    r: "r = \<lparr>result.model = m, language = l, token_count = int (length tokens),
              unk_count = count_unk (unk_token tk) tokens,
              unk_percentage = percentage (count_unk (unk_token tk) tokens) tokens\<rparr>"
    by (elim exE conjE)
  let ?c = "count_unk (unk_token tk) tokens"
  have iff: "0 < percentage ?c tokens \<longleftrightarrow> 0 < ?c"
    using percentage_pos_iff[OF count_unk_nonneg, of "unk_token tk" tokens tokens]
      count_unk_pos_nonempty[of "unk_token tk" tokens] by blast
  have empty: "int (length tokens) = 0 \<longrightarrow> percentage ?c tokens = 0 \<and> ?c = 0"
    by (simp add: percentage_def count_unk_def)
  have sel: "unk_percentage r = percentage ?c tokens" "unk_count r = ?c"
    "token_count r = int (length tokens)"
    "has_unk (result.extend r (checked_result.fields b)) = (0 < ?c)"
    by (simp_all add: r has_unk_def result.extend_def checked_result.fields_def)
  from iff empty show ?thesis
    unfolding sel by blast
qed

theorem unk_percentage_pos_iff_unk_count_pos_witness:
  "snd (test_tokenizer demo_hub ''bert-base-uncased'' ''Hello'' ''English'') =
     Inr \<lparr>result.model = ''bert-base-uncased'', language = ''English'', token_count = 3,
          unk_count = 2, unk_percentage = float_mul (int_truediv 2 3) 100\<rparr> \<and>
   0 < float_mul (int_truediv 2 3) 100"
proof -
  have c: "count_unk (unk_token demo_tokenizer) demo_tokens = 2"
    by (simp add: count_unk_def demo_tokens_def demo_tokenizer_def)
  have run: "snd (test_tokenizer demo_hub ''bert-base-uncased'' ''Hello'' ''English'') =
     Inr \<lparr>result.model = ''bert-base-uncased'', language = ''English'', token_count = 3,
          unk_count = 2, unk_percentage = float_mul (int_truediv 2 3) 100\<rparr>"
    using test_tokenizer_success[of demo_hub "''bert-base-uncased''" demo_tokenizer "''Hello''"
        "[100, 7592, 100]" demo_tokens "''English''"] demo_run
    by (simp add: c percentage_def) (simp add: demo_tokens_def)
  from unk_percentage_pos_iff_unk_count_pos[OF run, of True] run show ?thesis by simp
qed

section \<open>Properties of the loop over the test cases\<close>




lemma run_cases_completes:
  assumes "\<forall>tc\<in>set tcs. \<forall>e.
      snd (test_tokenizer fp (test_case.model tc) (sample_text tc) (test_case.language tc)) = Inl e
      \<longrightarrow> is_Exception e"
  shows "\<exists>out' rs'. run_cases fp tcs out rs = (out', Inr rs')"
  using assms
proof (induction tcs arbitrary: out rs)
  case Nil
  then show ?case by simp
next
  case (Cons tc tcs)
  then show ?case by (auto split: prod.splits sum.splits)
qed




section \<open>The test set\<close>

text \<open>
  Claim C9. The test set is a list of five records: the Hindi, Kannada and Tamil texts
  on \<^verbatim>\<open>bert-base-uncased\<close> with the flag set, the English text on \<^verbatim>\<open>bert-base-uncased\<close>
  and the Hindi text on \<^verbatim>\<open>bert-base-multilingual-uncased\<close> with the flag clear. It is a
  constant, which \<^verbatim>\<open>main\<close> hands to the loop.
\<close>

theorem test_cases_fixed:
  "length test_cases = 5 \<and>
   map (\<lambda>c. (test_case.model c, test_case.language c, test_case.expect_unk c)) test_cases =
     [(''bert-base-uncased'', ''Hindi (Devanagari)'', True),
      (''bert-base-uncased'', ''Kannada'', True),
      (''bert-base-uncased'', ''Tamil'', True),
      (''bert-base-uncased'', ''English'', False),
      (''bert-base-multilingual-uncased'', ''Hindi (Devanagari)'', False)] \<and>
   map sample_text test_cases =
     [hindi_text, kannada_text, tamil_text, ''Hello world. This is a test.'', hindi_text]"
  by (simp add: test_cases_def)

section \<open>The summary\<close>







lemma demo_hub_only_exceptions:
  "snd (test_tokenizer demo_hub m t l) = Inl e \<Longrightarrow> is_Exception e"
  by (auto simp: test_tokenizer_def demo_hub_def demo_tokenizer_def Let_def split: if_splits)



section \<open>Exit status\<close>

text \<open>
  Claim C7. When the import of \<^verbatim>\<open>transformers\<close> raises \<^verbatim>\<open>ImportError\<close>, the script prints
  its two lines and ends with exit status 1. When the import succeeds and \<^verbatim>\<open>main\<close>
  returns, the exit status is 0, whatever the results are; \<^verbatim>\<open>main\<close> returns whenever
  every exception raised while a test case is processed is an \<^verbatim>\<open>Exception\<close>.
\<close>

theorem exit_codes:
  "verify_unk_bert (Inl (ImportError msg)) =
     ([''ERROR: transformers not installed'', ''Install with: pip install transformers''],
      Inl (SystemExit 1)) \<and>
   exit_status (snd (verify_unk_bert (Inl (ImportError msg)))) = 1 \<and>
   (snd (main fp) = Inr () \<longrightarrow> exit_status (snd (verify_unk_bert (Inr fp))) = 0) \<and>
   ((\<forall>tc\<in>set test_cases. \<forall>e.
       snd (test_tokenizer fp (test_case.model tc) (sample_text tc) (test_case.language tc)) =
         Inl e \<longrightarrow> is_Exception e) \<longrightarrow>
    snd (main fp) = Inr () \<and> exit_status (snd (verify_unk_bert (Inr fp))) = 0)"
proof -
  have a: "verify_unk_bert (Inl (ImportError msg)) =
     ([''ERROR: transformers not installed'', ''Install with: pip install transformers''],
      Inl (SystemExit 1))"
    by (simp add: verify_unk_bert_def)
  have b: "exit_status (snd (verify_unk_bert (Inr fp))) = 0" if "snd (main fp) = Inr ()"
    using that by (simp add: verify_unk_bert_def)
  have c: "snd (main fp) = Inr ()"
    if "\<forall>tc\<in>set test_cases. \<forall>e.
       snd (test_tokenizer fp (test_case.model tc) (sample_text tc) (test_case.language tc)) =
         Inl e \<longrightarrow> is_Exception e"
  proof -
    from run_cases_completes[OF that] obtain out' rs' where
      "run_cases fp test_cases
         [magnifier @ '' UNK Token Detection Verification Script'', rule60] [] = (out', Inr rs')"
      by blast
    then show ?thesis by (simp add: main_def)
  qed
  from a b c show ?thesis by simp
qed

theorem exit_codes_witness:
  "snd (main demo_hub) = Inr () \<and>
   exit_status (snd (verify_unk_bert (Inr demo_hub))) = 0 \<and>
   exit_status (snd (verify_unk_bert (Inl (ImportError ''No module named transformers'')))) = 1"
proof -
  have h: "\<forall>tc\<in>set test_cases. \<forall>e.
      snd (test_tokenizer demo_hub (test_case.model tc) (sample_text tc) (test_case.language tc)) =
        Inl e \<longrightarrow> is_Exception e"
    using demo_hub_only_exceptions by blast
  from exit_codes[of "''No module named transformers''" demo_hub] h
  show ?thesis by blast
qed

section \<open>The conversion script\<close>

text \<open>
  Claim C8. The script calls, each in the world the call before left: the loading of the
  reference tokenizer, the loading of the fast tokenizer, the saving of the fast
  tokenizer to the fixed directory, its loading from that directory, the loading of the
  model, the encoding of the sample sentence with the reloaded tokenizer and the run of
  the model on the encoded input; after the last one it prints the encoded input and
  the last hidden state and ends normally. When one of the calls raises, the script ends
  at once with that exception, having printed nothing, and for an \<^verbatim>\<open>Exception\<close> the exit
  status is 1.
\<close>

theorem conversion_steps:
  "(BertTokenizer_from_pretrained lib model_id w_start = (Inl e, w_slow) \<longrightarrow>
      create_token lib w_start = ([], Inl e, w_slow)) \<and>
   (BertTokenizer_from_pretrained lib model_id w_start = (Inr slow_tokenizer, w_slow) \<longrightarrow>
   (BertTokenizerFast_from_pretrained lib model_id w_slow = (Inl e, w_fast) \<longrightarrow>
      create_token lib w_start = ([], Inl e, w_fast)) \<and>
   (BertTokenizerFast_from_pretrained lib model_id w_slow = (Inr fast_tokenizer, w_fast) \<longrightarrow>
   (save_pretrained lib fast_tokenizer fast_dir w_fast = (Inl e, w_saved) \<longrightarrow>
      create_token lib w_start = ([], Inl e, w_saved)) \<and>
   (save_pretrained lib fast_tokenizer fast_dir w_fast = (Inr (), w_saved) \<longrightarrow>
   (BertTokenizerFast_from_pretrained lib fast_dir w_saved = (Inl e, w_loaded) \<longrightarrow>
      create_token lib w_start = ([], Inl e, w_loaded)) \<and>
   (BertTokenizerFast_from_pretrained lib fast_dir w_saved = (Inr tokenizer, w_loaded) \<longrightarrow>
   (BertModel_from_pretrained lib model_id w_loaded = (Inl e, w_model) \<longrightarrow>
      create_token lib w_start = ([], Inl e, w_model)) \<and>
   (BertModel_from_pretrained lib model_id w_loaded = (Inr bert_model, w_model) \<longrightarrow>
   (call_tokenizer lib tokenizer sample_sentence w_model = (Inl e, w_encoded) \<longrightarrow>
      create_token lib w_start = ([], Inl e, w_encoded)) \<and>
   (call_tokenizer lib tokenizer sample_sentence w_model = (Inr inputs, w_encoded) \<longrightarrow>
   (call_model lib bert_model inputs w_encoded = (Inl e, w_end) \<longrightarrow>
      create_token lib w_start = ([], Inl e, w_end)) \<and>
   (call_model lib bert_model inputs w_encoded = (Inr outputs, w_end) \<longrightarrow>
      create_token lib w_start =
        ([''Tokenized input: '' @ str lib inputs,
          ''Model output (last hidden state): '' @ str lib (last_hidden_state lib outputs)],
         Inr (), w_end) \<and>
      exit_status (fst (snd (create_token lib w_start))) = 0))))))) \<and>
   (is_Exception e \<longrightarrow> fst (snd (create_token lib w_start)) = Inl e \<longrightarrow>
      exit_status (fst (snd (create_token lib w_start))) = 1)"
proof -
  have status: "exit_status (Inl e) = 1" if "is_Exception e"
    using that by (cases e) simp_all
  show ?thesis
    by (simp add: create_token_def status)
qed

theorem conversion_steps_witness:
  "create_token demo_lib [] =
     ([''Tokenized input: inputs'',
       ''Model output (last hidden state): outputs.last_hidden_state''],
      Inr (),
      [''BertTokenizer google/muril-base-cased'',
       ''BertTokenizerFast google/muril-base-cased'',
       ''save fast google/muril-base-cased to ./muril-fast-tokenizer'',
       ''BertTokenizerFast ./muril-fast-tokenizer'',
       ''BertModel google/muril-base-cased'',
       ''encode with fast ./muril-fast-tokenizer'',
       ''forward model inputs'']) \<and>
   create_token full_disk_lib [] =
     ([], Inl (Exception ''disk full''),
      [''BertTokenizer google/muril-base-cased'',
       ''BertTokenizerFast google/muril-base-cased'', ''save'']) \<and>
   is_Exception (Exception ''disk full'') \<and>
   exit_status (fst (snd (create_token full_disk_lib []))) = 1"
proof -
  note good = conversion_steps[where lib = demo_lib and w_start = "[]"
      and slow_tokenizer = "''slow''"
      and w_slow = "[''BertTokenizer google/muril-base-cased'']"
      and fast_tokenizer = "''fast google/muril-base-cased''"
      and w_fast = "[''BertTokenizer google/muril-base-cased'',
                     ''BertTokenizerFast google/muril-base-cased'']"
      and w_saved = "[''BertTokenizer google/muril-base-cased'',
                      ''BertTokenizerFast google/muril-base-cased'',
                      ''save fast google/muril-base-cased to ./muril-fast-tokenizer'']"
      and tokenizer = "''fast ./muril-fast-tokenizer''"
      and w_loaded = "[''BertTokenizer google/muril-base-cased'',
                       ''BertTokenizerFast google/muril-base-cased'',
                       ''save fast google/muril-base-cased to ./muril-fast-tokenizer'',
                       ''BertTokenizerFast ./muril-fast-tokenizer'']"
      and bert_model = "''model''"
      and w_model = "[''BertTokenizer google/muril-base-cased'',
                      ''BertTokenizerFast google/muril-base-cased'',
                      ''save fast google/muril-base-cased to ./muril-fast-tokenizer'',
                      ''BertTokenizerFast ./muril-fast-tokenizer'',
                      ''BertModel google/muril-base-cased'']"
      and inputs = "''inputs''"
      and w_encoded = "[''BertTokenizer google/muril-base-cased'',
                        ''BertTokenizerFast google/muril-base-cased'',
                        ''save fast google/muril-base-cased to ./muril-fast-tokenizer'',
                        ''BertTokenizerFast ./muril-fast-tokenizer'',
                        ''BertModel google/muril-base-cased'',
                        ''encode with fast ./muril-fast-tokenizer'']"
      and outputs = "''outputs''"
      and w_end = "[''BertTokenizer google/muril-base-cased'',
                    ''BertTokenizerFast google/muril-base-cased'',
                    ''save fast google/muril-base-cased to ./muril-fast-tokenizer'',
                    ''BertTokenizerFast ./muril-fast-tokenizer'',
                    ''BertModel google/muril-base-cased'',
                    ''encode with fast ./muril-fast-tokenizer'',
                    ''forward model inputs'']"
      and e = "Exception ''disk full''"]
  note bad = conversion_steps[where lib = full_disk_lib and w_start = "[]"
      and slow_tokenizer = "''slow''"
      and w_slow = "[''BertTokenizer google/muril-base-cased'']"
      and fast_tokenizer = "''fast google/muril-base-cased''"
      and w_fast = "[''BertTokenizer google/muril-base-cased'',
                     ''BertTokenizerFast google/muril-base-cased'']"
      and w_saved = "[''BertTokenizer google/muril-base-cased'',
                      ''BertTokenizerFast google/muril-base-cased'', ''save'']"
      and e = "Exception ''disk full''"]
  have a: "create_token demo_lib [] =
     ([''Tokenized input: inputs'',
       ''Model output (last hidden state): outputs.last_hidden_state''],
      Inr (),
      [''BertTokenizer google/muril-base-cased'',
       ''BertTokenizerFast google/muril-base-cased'',
       ''save fast google/muril-base-cased to ./muril-fast-tokenizer'',
       ''BertTokenizerFast ./muril-fast-tokenizer'',
       ''BertModel google/muril-base-cased'',
       ''encode with fast ./muril-fast-tokenizer'',
       ''forward model inputs''])"
    using good by (simp add: demo_lib_def model_id_def fast_dir_def)
  have b: "create_token full_disk_lib [] =
     ([], Inl (Exception ''disk full''),
      [''BertTokenizer google/muril-base-cased'',
       ''BertTokenizerFast google/muril-base-cased'', ''save''])"
    using bad by (simp add: full_disk_lib_def demo_lib_def model_id_def fast_dir_def)
  have c: "exit_status (fst (snd (create_token full_disk_lib []))) = 1"
    using bad b by simp
  from a b c show ?thesis by simp
qed


end
